theory Spec2Isabelle
  imports Main "HOL-Library.Word"
begin

section \<open>The video-storage microservice (video-storage/src/index.js)\<close>

text \<open>
  The service is one Node.js module. Evaluating the module reads the environment into
  constants, builds the configuration of the object-storage client, calls \<open>main\<close>
  (which validates the environment and asks Express to listen) and registers the routes.
  The model follows that order: \<open>load_module\<close> is lines 20 to 49, \<open>main\<close> is lines
  114 to 153, \<open>startup\<close> composes them as the module does, and one function per route
  handler gives the log lines, the calls to the storage client and the HTTP response of a
  request.
\<close>

subsection \<open>Values of the runtime\<close>

text \<open>
  \<open>process.env\<close> maps variable names to strings; a variable that is not set reads as
  \<open>undefined\<close>, which is \<open>None\<close> here. The same holds for request headers and query
  parameters.
\<close>

type_synonym env = "string \<rightharpoonup> string"

type_synonym bytes = "8 word list"

text \<open>
  The exceptions that occur: the \<open>TypeError\<close> of a method call on \<open>undefined\<close>, the
  \<open>RangeError\<close> of \<open>listen\<close> on a port that is out of range, the
  \<open>new Error(message)\<close> thrown by \<open>main\<close>, and the errors with which the storage
  client rejects a call, which carry a \<open>code\<close> (possibly undefined).
\<close>

datatype js_error =
    TypeError
  | RangeError
  | Error string
  | ServiceError "string option" string

fun code :: "js_error \<Rightarrow> string option" where
  "code (ServiceError c m) = c"
| "code TypeError = None"
| "code RangeError = None"
| "code (Error m) = None"

text \<open>JavaScript truthiness of a string or \<open>undefined\<close>: \<open>!x\<close> is \<open>\<not> truthy x\<close>.\<close>

fun truthy :: "string option \<Rightarrow> bool" where
  "truthy None = False"
| "truthy (Some s) = (s \<noteq> [])"

text \<open>A template literal prints \<open>undefined\<close> for an undefined value.\<close>

fun str :: "string option \<Rightarrow> string" where
  "str None = ''undefined''"
| "str (Some s) = s"

text \<open>Decimal notation of an integer, as a template literal prints a number.\<close>

definition digit :: "nat \<Rightarrow> char" where
  "digit n = char_of (48 + n)"

function decimal :: "nat \<Rightarrow> string" where
  "decimal n = (if n < 10 then [digit n] else decimal (n div 10) @ [digit (n mod 10)])"
  by pat_completeness auto
termination
  by (relation "measure id") auto

declare decimal.simps [simp del]

definition number_string :: "int \<Rightarrow> string" where
  "number_string i = (if i < 0 then CHR ''-'' # decimal (nat (- i)) else decimal (nat i))"

text \<open>
  \<open>String.prototype.toLowerCase\<close> on the letters A to Z. No character outside ASCII
  has one of the letters of \<open>hmac\<close> or \<open>iam\<close> as its lower case, so the comparisons of
  the source are decided by this function.
\<close>

definition toLowerChar :: "char \<Rightarrow> char" where
  "toLowerChar c =
     (let n = (of_char c :: nat) in if 65 \<le> n \<and> n \<le> 90 then char_of (n + 32) else c)"

definition toLowerCase :: "string \<Rightarrow> string" where
  "toLowerCase s = map toLowerChar s"

text \<open>
  Strings are sequences of bytes, the UTF-8 form in which the process receives them. A
  JavaScript white space character or line terminator (\<open>StrWhiteSpaceChar\<close>, and \<open>\s\<close> in
  a regular expression) is one of: the codes 9 to 13 and 32; U+00A0; U+1680; U+2000 to
  U+200A; U+2028; U+2029; U+202F; U+205F; U+3000; U+FEFF. \<open>StrWhiteSpaceChar s\<close> is the
  number of bytes of the white space character at the head of \<open>s\<close>, or 0 when there is
  none; \<open>trimStart\<close> removes all of them.
\<close>

definition StrWhiteSpaceChar :: "string \<Rightarrow> nat" where
  "StrWhiteSpaceChar s =
     (let b = (map of_char (take 3 s) :: nat list) in
      if take 1 b \<in> {[9], [10], [11], [12], [13], [32]} then 1
      else if take 2 b = [0xC2, 0xA0] then 2
      else if b = [0xE1, 0x9A, 0x80] then 3
      else if take 2 b = [0xE2, 0x80] \<and> length b = 3 \<and> 0x80 \<le> last b \<and> last b \<le> 0x8A then 3
      else if b \<in> {[0xE2, 0x80, 0xA8], [0xE2, 0x80, 0xA9], [0xE2, 0x80, 0xAF],
                    [0xE2, 0x81, 0x9F], [0xE3, 0x80, 0x80], [0xEF, 0xBB, 0xBF]} then 3
      else 0)"

function trimStart :: "string \<Rightarrow> string" where
  "trimStart s =
     (if StrWhiteSpaceChar s = 0 then s else trimStart (drop (StrWhiteSpaceChar s) s))"
  by pat_completeness auto
termination
proof (relation "measure length")
  show "wf (measure length)" by simp
next
  fix s :: string
  assume w: "StrWhiteSpaceChar s \<noteq> 0"
  then have "s \<noteq> []" by (auto simp: StrWhiteSpaceChar_def)
  with w show "(drop (StrWhiteSpaceChar s) s, s) \<in> measure length" by simp
qed

declare trimStart.simps [simp del]

text \<open>
  \<open>parseInt(string)\<close> with no radix: skip leading white space, read a sign, read
  \<open>0x\<close> or \<open>0X\<close> as the mark of radix 16, take the longest prefix of digits; no digit
  gives \<open>NaN\<close>, which is \<open>None\<close>. Numbers are mathematical integers here: that is the
  number JavaScript computes when the magnitude is below \<open>2^53\<close>; above it JavaScript
  rounds to a double, which stays above 65535 as the integer does.
\<close>

definition digit_value :: "char \<Rightarrow> nat option" where
  "digit_value c =
     (let n = (of_char c :: nat) in
      if 48 \<le> n \<and> n \<le> 57 then Some (n - 48)
      else if 97 \<le> n \<and> n \<le> 122 then Some (n - 87)
      else if 65 \<le> n \<and> n \<le> 90 then Some (n - 55)
      else None)"

definition radix_digit :: "nat \<Rightarrow> char \<Rightarrow> bool" where
  "radix_digit R c = (case digit_value c of None \<Rightarrow> False | Some v \<Rightarrow> v < R)"

definition math_int :: "nat \<Rightarrow> string \<Rightarrow> nat" where
  "math_int R Z = foldl (\<lambda>a c. a * R + (case digit_value c of None \<Rightarrow> 0 | Some v \<Rightarrow> v)) 0 Z"

definition parseInt :: "string \<Rightarrow> int option" where
  "parseInt inputString =
     (let S = trimStart inputString;
          sign = (if S \<noteq> [] \<and> hd S = CHR ''-'' then - 1 else 1 :: int);
          S1 = (if S \<noteq> [] \<and> (hd S = CHR ''+'' \<or> hd S = CHR ''-'') then tl S else S);
          hex = (take 2 S1 = ''0x'' \<or> take 2 S1 = ''0X'');
          R = (if hex then 16 else 10 :: nat);
          S2 = (if hex then drop 2 S1 else S1);
          Z = takeWhile (radix_digit R) S2
      in if Z = [] then None else Some (sign * int (math_int R Z)))"

subsection \<open>Logging\<close>

text \<open>
  Every log call of the source is \<open>logger.info\<close> or \<open>logger.error\<close> with a message and
  the metadata object \<open>{ app, service, requestId }\<close>. The logger writes one record per
  call. A call that logs an error object, or its \<open>stack\<close>, is kept as such.
\<close>

datatype level = info | error

datatype log_message =
    Msg string
  | ErrorObject js_error
  | ErrorStack js_error

record log_entry =
  level :: level
  message :: log_message
  app :: "string option"
  service :: "string option"
  requestId :: "string option"

subsection \<open>Module constants (lines 20 to 49)\<close>

text \<open>
  \<open>CONFIG\<close> is one of two object literals: the one for HMAC credentials
  (\<open>apiVersion\<close>, \<open>accessKeyId\<close>, \<open>secretAccessKey\<close>, \<open>region\<close>, \<open>endpoint\<close>) or the one for
  IAM (\<open>apiVersion\<close>, \<open>apiKeyId\<close>, \<open>serviceInstanceId\<close>, \<open>endpoint\<close>).
\<close>

datatype config =
    HMAC_config string "string option" "string option" "string option" "string option"
  | IAM_config string "string option" "string option" "string option"

record globals =
  SVC_NAME :: "string option"
  APP_NAME_VER :: "string option"
  BUCKET_NAME :: "string option"
  AUTHENTICATION_TYPE :: "string option"
  API_KEY :: "string option"
  ENDPOINT :: "string option"
  ACCESS_KEY_ID :: "string option"
  SECRET_ACCESS_KEY :: "string option"
  SERVICE_INSTANCE_ID :: "string option"
  REGION :: "string option"
  PORT :: int
  READINESS_PROBE :: bool
  CONFIG :: config

text \<open>\<open>process.env.PORT && parseInt(process.env.PORT) || 3000\<close> (line 30).\<close>

definition PORT_of :: "env \<Rightarrow> int" where
  "PORT_of env =
     (case env ''PORT'' of
        None \<Rightarrow> 3000
      | Some p \<Rightarrow>
          if \<not> truthy (Some p) then 3000
          else (case parseInt p of
                  None \<Rightarrow> 3000
                | Some n \<Rightarrow> if n = 0 then 3000 else n))"

text \<open>
  Line 32 calls \<open>AUTHENTICATION_TYPE.toLowerCase()\<close> while the module is evaluated: when
  the variable is not set the call is on \<open>undefined\<close> and throws a \<open>TypeError\<close>. Line 49
  then constructs the storage client, \<open>new cos.S3(CONFIG)\<close>; the constructor is the
  SDK's and may throw on the configuration it is given, so it is a parameter here:
  \<open>cos_S3 c\<close> is the error it throws on \<open>c\<close>, or \<open>None\<close> when it returns. All of this is
  before \<open>main\<close> runs and before the \<open>uncaughtException\<close> handler of line 57 is
  registered, so an error here ends the process.
\<close>

definition constants :: "env \<Rightarrow> string \<Rightarrow> globals" where
  "constants env a =
          \<lparr> SVC_NAME = env ''SVC_NAME'',
                APP_NAME_VER = env ''APP_NAME_VER'',
                BUCKET_NAME = env ''BUCKET_NAME'',
                AUTHENTICATION_TYPE = env ''AUTHENTICATION_TYPE'',
                API_KEY = env ''API_KEY'',
                ENDPOINT = env ''ENDPOINT'',
                ACCESS_KEY_ID = env ''ACCESS_KEY_ID'',
                SECRET_ACCESS_KEY = env ''SECRET_ACCESS_KEY'',
                SERVICE_INSTANCE_ID = env ''SERVICE_INSTANCE_ID'',
                REGION = env ''REGION'',
                PORT = PORT_of env,
                READINESS_PROBE = False,
                CONFIG =
                  (if toLowerCase a = ''hmac''
                   then HMAC_config ''latest'' (env ''ACCESS_KEY_ID'') (env ''SECRET_ACCESS_KEY'')
                          (env ''REGION'') (env ''ENDPOINT'')
                   else IAM_config ''latest'' (env ''API_KEY'') (env ''SERVICE_INSTANCE_ID'')
                          (env ''ENDPOINT'')) \<rparr>"

definition load_module :: "(config \<Rightarrow> js_error option) \<Rightarrow> env \<Rightarrow> js_error + globals" where
  "load_module cos_S3 env =
     (case env ''AUTHENTICATION_TYPE'' of
        None \<Rightarrow> Inl TypeError
      | Some a \<Rightarrow>
          (case cos_S3 (CONFIG (constants env a)) of
             Some e \<Rightarrow> Inl e
           | None \<Rightarrow> Inr (constants env a)))"

text \<open>The log call shared by all sites: level, message, and the request identifier.\<close>

definition logger :: "globals \<Rightarrow> level \<Rightarrow> log_message \<Rightarrow> string option \<Rightarrow> log_entry" where
  "logger g l m rid =
     \<lparr> level = l, message = m, app = APP_NAME_VER g, service = SVC_NAME g, requestId = rid \<rparr>"

subsection \<open>main (lines 114 to 153)\<close>

text \<open>The messages of the errors thrown by \<open>main\<close>, by the variable they ask for.\<close>

definition missing_BUCKET_NAME :: string where
  "missing_BUCKET_NAME =
     ''Please specify the bucket name of an IBM COS account in the environment variable BUCKET_NAME.''"

definition missing_ENDPOINT :: string where
  "missing_ENDPOINT =
     ''Please specify the endpoint for the IBM COS account in the environment variable ENDPOINT.''"

definition missing_AUTHENTICATION_TYPE :: string where
  "missing_AUTHENTICATION_TYPE =
     ''Please specify the type of authentication to use in the environment variable AUTHENTICATION_TYPE.''"

definition missing_REGION :: string where
  "missing_REGION = ''Please specify the region in the environment variable REGION.''"

definition missing_SECRET_ACCESS_KEY :: string where
  "missing_SECRET_ACCESS_KEY =
     ''Please specify the HMAC secret access key in the environment variable SECRET_ACCESS_KEY.''"

definition missing_ACCESS_KEY_ID :: string where
  "missing_ACCESS_KEY_ID =
     ''Please specify the HMAC access key id in the environment variable ACCESS_KEY_ID.''"

definition missing_API_KEY :: string where
  "missing_API_KEY =
     ''Please specify the API key of an IBM COS account in the environment variable API_KEY.''"

definition missing_SERVICE_INSTANCE_ID :: string where
  "missing_SERVICE_INSTANCE_ID =
     ''Please specify the service instance Id for the IBM COS account in the environment variable SERVICE_INSTANCE_ID.''"

definition unknown_authentication_type :: "string \<Rightarrow> string" where
  "unknown_authentication_type a = ''Unknown authentication type ('' @ a @ '').''"

definition port_notice :: "globals \<Rightarrow> log_entry" where
  "port_notice g =
     logger g info
       (Msg (''The environment variable PORT for the HTTP server is missing; using port ''
             @ number_string (PORT g) @ ''.''))
       (Some ''-1'')"

text \<open>
  \<open>main\<close> throws (\<open>Inl\<close>) or returns the promise of \<open>app.listen(PORT, ...)\<close>; the value
  \<open>Inr\<close> carries what it logged before calling \<open>listen\<close>. The checks read \<open>process.env\<close>;
  the mode is read from the constant \<open>AUTHENTICATION_TYPE\<close>.
\<close>

definition main :: "env \<Rightarrow> globals \<Rightarrow> js_error + log_entry list" where
  "main env g =
     (if \<not> truthy (env ''BUCKET_NAME'') then Inl (Error missing_BUCKET_NAME)
      else if \<not> truthy (env ''ENDPOINT'') then Inl (Error missing_ENDPOINT)
      else if \<not> truthy (env ''AUTHENTICATION_TYPE'') then Inl (Error missing_AUTHENTICATION_TYPE)
      else
        (case AUTHENTICATION_TYPE g of
           None \<Rightarrow> Inl TypeError
         | Some a \<Rightarrow>
             if toLowerCase a = ''hmac'' then
               (if \<not> truthy (env ''REGION'') then Inl (Error missing_REGION)
                else if \<not> truthy (env ''SECRET_ACCESS_KEY'') then Inl (Error missing_SECRET_ACCESS_KEY)
                else if \<not> truthy (env ''ACCESS_KEY_ID'') then Inl (Error missing_ACCESS_KEY_ID)
                else Inr (if env ''PORT'' = None then [port_notice g] else []))
             else if toLowerCase a = ''iam'' then
               (if \<not> truthy (env ''API_KEY'') then Inl (Error missing_API_KEY)
                else if \<not> truthy (env ''SERVICE_INSTANCE_ID'') then Inl (Error missing_SERVICE_INSTANCE_ID)
                else Inr (if env ''PORT'' = None then [port_notice g] else []))
             else Inl (Error (unknown_authentication_type a))))"

text \<open>
  The \<open>uncaughtException\<close> handler (lines 57 to 62). \<open>main\<close> is an ordinary function, so
  an error it throws leaves the expression \<open>main().then(...).catch(...)\<close> before any
  callback is attached and reaches this handler.
\<close>

definition uncaughtException :: "globals \<Rightarrow> js_error \<Rightarrow> log_entry list" where
  "uncaughtException g err =
     [logger g error (Msg ''Uncaught exception.'') (Some ''-1''),
      logger g error (ErrorObject err) (Some ''-1''),
      logger g error (ErrorStack err) (Some ''-1'')]"

text \<open>
  \<open>app.listen(PORT, ...)\<close> runs inside the promise that \<open>main\<close> returns. Node accepts a
  port from 0 to 65535 and throws a \<open>RangeError\<close> on any other number; the promise is then
  rejected and the \<open>catch\<close> callback of lines 107 to 111 logs the failure. A failure to
  bind that the system reports later (the port is taken, say) is not an exception of
  \<open>listen\<close>: the callback of \<open>listen\<close> then never fires.
\<close>

definition listen :: "int \<Rightarrow> js_error option" where
  "listen port = (if 0 \<le> port \<and> port \<le> 65535 then None else Some RangeError)"

definition failed_to_start :: "globals \<Rightarrow> js_error \<Rightarrow> log_entry list" where
  "failed_to_start g err =
     [logger g error (Msg ''Microservice failed to start.'') (Some ''-1''),
      logger g error (ErrorObject err) (Some ''-1''),
      logger g error (ErrorStack err) (Some ''-1'')]"

text \<open>
  Running the file: the module constants, then \<open>main\<close> (line 102). Either evaluation of
  the constants throws and the process dies, or \<open>main\<close> throws and \<open>listen\<close> is never
  called, or \<open>listen\<close> throws, or \<open>app.listen\<close> is called with \<open>PORT\<close> and the process
  waits for the listener to be bound.
\<close>

datatype startup_result =
    Load_failed js_error
  | Main_threw js_error "log_entry list"
  | Listen_threw js_error "log_entry list"
  | Listen_called globals "log_entry list"

definition startup :: "(config \<Rightarrow> js_error option) \<Rightarrow> env \<Rightarrow> startup_result" where
  "startup cos_S3 env =
     (case load_module cos_S3 env of
        Inl e \<Rightarrow> Load_failed e
      | Inr g \<Rightarrow>
          (case main env g of
             Inl e \<Rightarrow> Main_threw e (uncaughtException g e)
           | Inr ls \<Rightarrow>
               (case listen (PORT g) of
                  Some e \<Rightarrow> Listen_threw e (ls @ failed_to_start g e)
                | None \<Rightarrow> Listen_called g ls)))"

fun serving :: "startup_result \<Rightarrow> bool" where
  "serving (Listen_called g ls) = True"
| "serving (Load_failed e) = False"
| "serving (Main_threw e ls) = False"
| "serving (Listen_threw e ls) = False"

subsection \<open>Requests, responses and the storage client\<close>

text \<open>
  What a handler reads of an Express request: \<open>req.url\<close>, \<open>req.headers\<close> (names in lower
  case), \<open>req.query\<close> and the body that \<open>req.pipe\<close> delivers.
\<close>

record request =
  url :: string
  headers :: "string \<rightharpoonup> string"
  query :: "string \<rightharpoonup> string"
  body :: bytes

text \<open>
  An Express response: the status code (200 unless set), the header fields, and the value
  given to \<open>res.send\<close>: a buffer, an object serialised as JSON, or a string.
  \<open>res.sendStatus(c)\<close> sets the status and sends the reason phrase of \<open>c\<close>. Header
  fields are strings; \<open>res.set\<close> converts the value it is given with \<open>String\<close>.
\<close>

datatype header_value = Str string | Num nat

fun String :: "header_value \<Rightarrow> string" where
  "String (Str s) = s"
| "String (Num n) = decimal n"

datatype sent =
    Nothing
  | Buffer bytes
  | Object "(string \<times> string) list"
  | Text string
  | StatusMessage nat

record response =
  statusCode :: nat
  header_fields :: "string \<rightharpoonup> string"
  payload :: sent

definition res0 :: response where
  "res0 = \<lparr> statusCode = 200, header_fields = Map.empty, payload = Nothing \<rparr>"

text \<open>
  \<open>res.set(field, value)\<close> of Express 4 adds a character set to a content type that
  names none: when the field is \<open>Content-Type\<close>, the value does not match
  \<open>/;\s*charset\s*=/\<close>, and the type before the first \<open>;\<close> matches
  \<open>/^text\/|^application\/(javascript|json)/\<close>, it appends \<open>; charset=utf-8\<close>.
\<close>

fun charsetRegExp :: "string \<Rightarrow> bool" where
  "charsetRegExp [] = False"
| "charsetRegExp (c # cs) =
     ((c = CHR '';'' \<and>
       take 7 (trimStart cs) = ''charset'' \<and>
       take 1 (trimStart (drop 7 (trimStart cs))) = ''='')
      \<or> charsetRegExp cs)"

definition charsets_lookup :: "string \<Rightarrow> string option" where
  "charsets_lookup mimeType =
     (if take 5 mimeType = ''text/'' \<or> take 22 mimeType = ''application/javascript''
         \<or> take 16 mimeType = ''application/json''
      then Some ''UTF-8'' else None)"

definition add_charset :: "string \<Rightarrow> string" where
  "add_charset v =
     (if charsetRegExp v then v
      else (case charsets_lookup (takeWhile (\<lambda>c. c \<noteq> CHR '';'') v) of
              None \<Rightarrow> v
            | Some charset \<Rightarrow> v @ ''; charset='' @ toLowerCase charset))"

definition set_field :: "string \<Rightarrow> header_value \<Rightarrow> response \<Rightarrow> response" where
  "set_field f v res =
     res\<lparr> header_fields := (header_fields res)
            (f \<mapsto> (if toLowerCase f = ''content-type'' then add_charset (String v)
                       else String v)) \<rparr>"

text \<open>
  \<open>res.send(body)\<close> with a buffer: if no \<open>Content-Type\<close> is set it sets
  \<open>application/octet-stream\<close>, and it sets \<open>Content-Length\<close> to the number of bytes of
  the buffer, over any value set before. For a string or an object only the payload is
  recorded: no statement below is about the header fields of those responses. The entity
  tag that \<open>res.send\<close> adds, and the answer 304 it gives to a conditional request whose tag
  matches, are not followed either.
\<close>

definition send :: "sent \<Rightarrow> response \<Rightarrow> response" where
  "send chunk res =
     (case chunk of
        Buffer b \<Rightarrow>
          set_field ''Content-Length'' (Num (length b))
            (if header_fields res ''Content-Type'' = None
             then set_field ''Content-Type'' (Str ''application/octet-stream'') res
             else res)
          \<lparr> payload := chunk \<rparr>
      | _ \<Rightarrow> res\<lparr> payload := chunk \<rparr>)"

definition status :: "nat \<Rightarrow> response \<Rightarrow> response" where
  "status c res = res\<lparr> statusCode := c \<rparr>"

definition sendStatus :: "nat \<Rightarrow> response \<Rightarrow> response" where
  "sendStatus c res = res\<lparr> statusCode := c, payload := StatusMessage c \<rparr>"

text \<open>
  The parameter object of a storage call; a property the object literal does not have is
  \<open>None\<close>. \<open>getObject\<close> resolves with \<open>data\<close> (\<open>ContentLength\<close>, \<open>ContentType\<close>, \<open>Body\<close>) or
  rejects with an error; \<open>putObject\<close> resolves or rejects. The client is a parameter of
  the handlers: it gives the outcome of each call.
\<close>

record params =
  Bucket :: "string option"
  Key :: "string option"
  ContentType :: "string option"
  ContentLength :: "string option"
  Body :: "bytes option"

record getObject_output =
  data_ContentLength :: nat
  data_ContentType :: string
  data_Body :: bytes

record client =
  getObject :: "params \<Rightarrow> js_error + getObject_output"
  putObject :: "params \<Rightarrow> js_error + unit"

datatype call = GetObject params | PutObject params

text \<open>What handling one request does: log lines, storage calls, and the response.\<close>

record outcome =
  logs :: "log_entry list"
  calls :: "call list"
  response :: response

subsection \<open>Route handlers (lines 159 to 247)\<close>

definition readiness :: "globals \<Rightarrow> outcome" where
  "readiness g =
     \<lparr> logs = [], calls = [],
       response = sendStatus (if READINESS_PROBE g = True then 200 else 500) res0 \<rparr>"

definition video_params :: "globals \<Rightarrow> string \<Rightarrow> params" where
  "video_params g videoId =
     \<lparr> Bucket = BUCKET_NAME g, Key = Some videoId,
       ContentType = None, ContentLength = None, Body = None \<rparr>"

definition video :: "globals \<Rightarrow> client \<Rightarrow> request \<Rightarrow> outcome" where
  "video g cl req =
     (let cid = headers req ''x-correlation-id'' in
      case query req ''id'' of
        Some videoId \<Rightarrow>
          (let retrieving = logger g info
                 (Msg (''Retrieving video from bucket: '' @ str (BUCKET_NAME g) @ '', key: ''
                       @ videoId @ ''.'')) cid;
               params = video_params g videoId
           in case getObject cl params of
                Inr data \<Rightarrow>
                  \<lparr> logs = [retrieving,
                             logger g info
                               (Msg (''Retrieved '' @ str (BUCKET_NAME g) @ ''/'' @ videoId
                                     @ '' with size '' @ decimal (data_ContentLength data) @ ''.''))
                               cid],
                    calls = [GetObject params],
                    response =
                      send (Buffer (data_Body data))
                        (set_field ''Content-Type'' (Str (data_ContentType data))
                          (set_field ''Content-Length'' (Num (data_ContentLength data)) res0)) \<rparr>
              | Inl err \<Rightarrow>
                  \<lparr> logs = retrieving #
                      (if code err = Some ''NoSuchKey'' then
                         [logger g info
                            (Msg (str (BUCKET_NAME g) @ ''/'' @ videoId @ '' not found.'')) cid]
                       else
                         [logger g error
                            (Msg (''Error while retrieving video '' @ str (BUCKET_NAME g) @ ''/''
                                  @ videoId @ '' to stream.'')) cid,
                          logger g error (ErrorObject err) cid,
                          logger g error (ErrorStack err) cid]),
                    calls = [GetObject params],
                    response = sendStatus 500 res0 \<rparr>)
      | None \<Rightarrow>
          \<lparr> logs = [logger g info (Msg ''An id term must be provided.'') cid],
            calls = [],
            response = send (Object [(''error'', ''An 'id' term must be provided.'')]) res0 \<rparr>)"

definition upload_params :: "globals \<Rightarrow> request \<Rightarrow> params" where
  "upload_params g req =
     \<lparr> Bucket = BUCKET_NAME g, Key = headers req ''id'',
       ContentType = headers req ''content-type'',
       ContentLength = headers req ''content-length'',
       Body = Some (body req) \<rparr>"

definition upload :: "globals \<Rightarrow> client \<Rightarrow> request \<Rightarrow> outcome" where
  "upload g cl req =
     (let videoId = headers req ''id'';
          mimeType = headers req ''content-type'';
          contentLength = headers req ''content-length'';
          cid = headers req ''x-correlation-id'';
          params = upload_params g req;
          uploading = logger g info
            (Msg (''Uploading video to bucket: '' @ str (BUCKET_NAME g) @ '', key: '' @ str videoId
                  @ '', Content-Type: '' @ str mimeType @ '', Content-Length: ''
                  @ str contentLength @ ''.'')) cid
      in case putObject cl params of
           Inr data \<Rightarrow>
             \<lparr> logs = [uploading,
                        logger g info (Msg (''Uploaded the video '' @ str videoId @ ''.'')) cid],
               calls = [PutObject params],
               response = sendStatus 200 res0 \<rparr>
         | Inl err \<Rightarrow>
             \<lparr> logs = [uploading,
                        logger g error
                          (Msg (''Upload to COS failed for video '' @ str videoId @ ''.'')) cid,
                        logger g error (ErrorObject err) cid],
               calls = [PutObject params],
               response = sendStatus 500 res0 \<rparr>)"

definition not_found :: "globals \<Rightarrow> request \<Rightarrow> outcome" where
  "not_found g req =
     \<lparr> logs = [logger g error
                  (Msg (''Unable to find the requested resource ('' @ url req @ '')!''))
                  (Some ''-1'')],
       calls = [],
       response =
         send (Text (''<h1>Unable to find the requested resource ('' @ url req @ '')!</h1>''))
           (status 404 res0) \<rparr>"

text \<open>
  Express selects the handler from the method and the path; the selection itself is the
  framework's. A request reaches one of the three routes or the last middleware.
\<close>

datatype route = GET_readiness | GET_video | POST_upload | unmatched

fun handle :: "globals \<Rightarrow> client \<Rightarrow> route \<Rightarrow> request \<Rightarrow> outcome" where
  "handle g cl GET_readiness req = readiness g"
| "handle g cl GET_video req = video g cl req"
| "handle g cl POST_upload req = upload g cl req"
| "handle g cl unmatched req = not_found g req"

subsection \<open>The process over time\<close>

text \<open>
  After the module is loaded the process reacts to events: the callback of \<open>app.listen\<close>
  fires when the listener is bound, which resolves the promise of \<open>main\<close> and runs the
  callback of line 103 (it sets \<open>READINESS_PROBE\<close> and logs); and requests are handled.
  The state is the module's variables and what has been logged. Handlers are run in any
  state, also one where the listener is not bound yet.
\<close>

record process =
  vars :: globals
  console :: "log_entry list"

datatype event = Listening | Incoming route client request

fun step :: "process \<Rightarrow> event \<Rightarrow> process" where
  "step p Listening =
     \<lparr> vars = (vars p)\<lparr> READINESS_PROBE := True \<rparr>,
       console = console p @
         [logger (vars p) info
            (Msg (''Microservice is listening on port '' @ number_string (PORT (vars p)) @ ''!''))
            (Some ''-1'')] \<rparr>"
| "step p (Incoming r cl req) =
     p\<lparr> console := console p @ logs (handle (vars p) cl r req) \<rparr>"

definition run :: "process \<Rightarrow> event list \<Rightarrow> process" where
  "run p evs = foldl step p evs"

definition loaded :: "globals \<Rightarrow> process" where
  "loaded g = \<lparr> vars = g, console = [] \<rparr>"

subsection \<open>Sample inputs\<close>

definition hmac_env :: env where
  "hmac_env = map_of
     [(''BUCKET_NAME'', ''videos''), (''ENDPOINT'', ''s3.example.net''),
      (''AUTHENTICATION_TYPE'', ''HMAC''), (''REGION'', ''eu''),
      (''SECRET_ACCESS_KEY'', ''s''), (''ACCESS_KEY_ID'', ''k'')]"

definition hmac_globals :: globals where
  "hmac_globals =
     \<lparr> SVC_NAME = None, APP_NAME_VER = None, BUCKET_NAME = Some ''videos'',
       AUTHENTICATION_TYPE = Some ''HMAC'', API_KEY = None, ENDPOINT = Some ''s3.example.net'',
       ACCESS_KEY_ID = Some ''k'', SECRET_ACCESS_KEY = Some ''s'', SERVICE_INSTANCE_ID = None,
       REGION = Some ''eu'', PORT = 3000, READINESS_PROBE = False,
       CONFIG = HMAC_config ''latest'' (Some ''k'') (Some ''s'') (Some ''eu'')
                  (Some ''s3.example.net'') \<rparr>"


definition store_with :: "(params \<Rightarrow> js_error + getObject_output) \<Rightarrow> client" where
  "store_with f = \<lparr> getObject = f, putObject = (\<lambda>p. Inr ()) \<rparr>"

definition failing_store :: "js_error \<Rightarrow> client" where
  "failing_store e = \<lparr> getObject = (\<lambda>p. Inl e), putObject = (\<lambda>p. Inl e) \<rparr>"

definition get_request :: "(string \<times> string) list \<Rightarrow> (string \<times> string) list \<Rightarrow> request" where
  "get_request hs qs = \<lparr> url = ''/video'', headers = map_of hs, query = map_of qs, body = [] \<rparr>"

definition post_request :: "(string \<times> string) list \<Rightarrow> bytes \<Rightarrow> request" where
  "post_request hs b = \<lparr> url = ''/upload'', headers = map_of hs, query = Map.empty, body = b \<rparr>"


definition constructed :: "config \<Rightarrow> js_error option" where
  "constructed c = None"


definition env_without_mode :: env where
  "env_without_mode = map_of [(''BUCKET_NAME'', ''videos''), (''ENDPOINT'', ''s3.example.net'')]"

subsection \<open>The specification's notion of a complete environment\<close>

text \<open>
  This definition follows the specification, not the source: bucket name, endpoint and
  mode selector are always required; region, secret key and access key id are required
  under \<open>hmac\<close>; api key and service instance id under \<open>iam\<close>. A field is present when
  it is set and not empty, and the mode is compared without regard to case.
\<close>

definition complete_environment :: "env \<Rightarrow> bool" where
  "complete_environment env =
     (truthy (env ''BUCKET_NAME'') \<and> truthy (env ''ENDPOINT'') \<and>
      truthy (env ''AUTHENTICATION_TYPE'') \<and>
      (toLowerCase (str (env ''AUTHENTICATION_TYPE'')) = ''hmac'' \<and>
         truthy (env ''REGION'') \<and> truthy (env ''SECRET_ACCESS_KEY'') \<and>
         truthy (env ''ACCESS_KEY_ID'')
       \<or> toLowerCase (str (env ''AUTHENTICATION_TYPE'')) = ''iam'' \<and>
         truthy (env ''API_KEY'') \<and> truthy (env ''SERVICE_INSTANCE_ID'')))"

section \<open>Startup: environment validation\<close>

text \<open>
  Evaluation of the functions on strings at the values used below, and what the loaded
  constants are.
\<close>


lemma toLowerCase_samples [simp]:
  "toLowerCase ''HMAC'' = ''hmac''"
  by code_simp

lemma parseInt_Nil: "parseInt [] = None"
  by code_simp

lemma parseInt_samples:
  "parseInt ''abc'' = None" "parseInt ''0'' = Some 0" "parseInt ''8080'' = Some 8080"
  by code_simp+

lemma load_module_constants:
  assumes "load_module cos_S3 env = Inr g"
  shows "AUTHENTICATION_TYPE g = env ''AUTHENTICATION_TYPE''"
    and "PORT g = PORT_of env"
    and "READINESS_PROBE g = False"
  using assms by (auto simp: load_module_def constants_def split: option.splits)

lemma load_module_hmac_env: "load_module constructed hmac_env = Inr hmac_globals"
  by (simp add: load_module_def constants_def constructed_def hmac_env_def hmac_globals_def
      PORT_of_def)

text \<open>
  What \<open>main\<close> throws, check by check in the order of the source: the first variable
  found missing is the one the error asks for; with the three common variables present
  the mode decides which further variables are required, and a mode that is neither
  \<open>hmac\<close> nor \<open>iam\<close> is an error of its own.
\<close>

lemma main_missing_always_required:
  shows "\<not> truthy (env ''BUCKET_NAME'') \<Longrightarrow> main env g = Inl (Error missing_BUCKET_NAME)"
    and "truthy (env ''BUCKET_NAME'') \<Longrightarrow> \<not> truthy (env ''ENDPOINT'') \<Longrightarrow>
           main env g = Inl (Error missing_ENDPOINT)"
    and "truthy (env ''BUCKET_NAME'') \<Longrightarrow> truthy (env ''ENDPOINT'') \<Longrightarrow>
           \<not> truthy (env ''AUTHENTICATION_TYPE'') \<Longrightarrow>
           main env g = Inl (Error missing_AUTHENTICATION_TYPE)"
  by (simp_all add: main_def)

lemma main_mode:
  assumes "truthy (env ''BUCKET_NAME'')" and "truthy (env ''ENDPOINT'')"
    and "env ''AUTHENTICATION_TYPE'' = Some a" and "a \<noteq> []"
    and "AUTHENTICATION_TYPE g = Some a"
  shows "main env g =
          (if toLowerCase a = ''hmac'' then
             (if \<not> truthy (env ''REGION'') then Inl (Error missing_REGION)
              else if \<not> truthy (env ''SECRET_ACCESS_KEY'') then Inl (Error missing_SECRET_ACCESS_KEY)
              else if \<not> truthy (env ''ACCESS_KEY_ID'') then Inl (Error missing_ACCESS_KEY_ID)
              else Inr (if env ''PORT'' = None then [port_notice g] else []))
           else if toLowerCase a = ''iam'' then
             (if \<not> truthy (env ''API_KEY'') then Inl (Error missing_API_KEY)
              else if \<not> truthy (env ''SERVICE_INSTANCE_ID'') then Inl (Error missing_SERVICE_INSTANCE_ID)
              else Inr (if env ''PORT'' = None then [port_notice g] else []))
           else Inl (Error (unknown_authentication_type a)))"
  using assms by (simp add: main_def)

lemma main_missing_hmac:
  assumes "truthy (env ''BUCKET_NAME'')" and "truthy (env ''ENDPOINT'')"
    and "env ''AUTHENTICATION_TYPE'' = Some a" and "AUTHENTICATION_TYPE g = Some a"
    and "toLowerCase a = ''hmac''"
  shows "\<not> truthy (env ''REGION'') \<Longrightarrow> main env g = Inl (Error missing_REGION)"
    and "truthy (env ''REGION'') \<Longrightarrow> \<not> truthy (env ''SECRET_ACCESS_KEY'') \<Longrightarrow>
           main env g = Inl (Error missing_SECRET_ACCESS_KEY)"
    and "truthy (env ''REGION'') \<Longrightarrow> truthy (env ''SECRET_ACCESS_KEY'') \<Longrightarrow>
           \<not> truthy (env ''ACCESS_KEY_ID'') \<Longrightarrow> main env g = Inl (Error missing_ACCESS_KEY_ID)"
proof -
  have "a \<noteq> []" using assms(5) by (auto simp: toLowerCase_def)
  note m = main_mode [OF assms(1-3) this assms(4)]
  show "\<not> truthy (env ''REGION'') \<Longrightarrow> main env g = Inl (Error missing_REGION)"
    using assms(5) by (simp add: m)
  show "truthy (env ''REGION'') \<Longrightarrow> \<not> truthy (env ''SECRET_ACCESS_KEY'') \<Longrightarrow>
           main env g = Inl (Error missing_SECRET_ACCESS_KEY)"
    using assms(5) by (simp add: m)
  show "truthy (env ''REGION'') \<Longrightarrow> truthy (env ''SECRET_ACCESS_KEY'') \<Longrightarrow>
           \<not> truthy (env ''ACCESS_KEY_ID'') \<Longrightarrow> main env g = Inl (Error missing_ACCESS_KEY_ID)"
    using assms(5) by (simp add: m)
qed

lemma main_missing_iam:
  assumes "truthy (env ''BUCKET_NAME'')" and "truthy (env ''ENDPOINT'')"
    and "env ''AUTHENTICATION_TYPE'' = Some a" and "AUTHENTICATION_TYPE g = Some a"
    and "toLowerCase a = ''iam''"
  shows "\<not> truthy (env ''API_KEY'') \<Longrightarrow> main env g = Inl (Error missing_API_KEY)"
    and "truthy (env ''API_KEY'') \<Longrightarrow> \<not> truthy (env ''SERVICE_INSTANCE_ID'') \<Longrightarrow>
           main env g = Inl (Error missing_SERVICE_INSTANCE_ID)"
proof -
  have "a \<noteq> []" using assms(5) by (auto simp: toLowerCase_def)
  note m = main_mode [OF assms(1-3) this assms(4)]
  show "\<not> truthy (env ''API_KEY'') \<Longrightarrow> main env g = Inl (Error missing_API_KEY)"
    using assms(5) by (simp add: m)
  show "truthy (env ''API_KEY'') \<Longrightarrow> \<not> truthy (env ''SERVICE_INSTANCE_ID'') \<Longrightarrow>
           main env g = Inl (Error missing_SERVICE_INSTANCE_ID)"
    using assms(5) by (simp add: m)
qed

lemma main_unknown_mode:
  assumes "truthy (env ''BUCKET_NAME'')" and "truthy (env ''ENDPOINT'')"
    and "env ''AUTHENTICATION_TYPE'' = Some a" and "AUTHENTICATION_TYPE g = Some a"
    and "a \<noteq> []" and "toLowerCase a \<noteq> ''hmac''" and "toLowerCase a \<noteq> ''iam''"
  shows "main env g = Inl (Error (unknown_authentication_type a))"
  using assms by (simp add: main_mode)

text \<open>
  An error thrown by \<open>main\<close> is logged by the \<open>uncaughtException\<close> handler and
  \<open>listen\<close> is not called; an error thrown by the client's constructor ends the process
  before \<open>main\<close>. When the constants are loaded, the process gets to wait for its
  listener exactly when the environment is complete in the sense of the specification and
  the port is one that \<open>listen\<close> accepts.
\<close>

lemma main_throws_not_serving:
  assumes "load_module cos_S3 env = Inr g" and "main env g = Inl e"
  shows "startup cos_S3 env = Main_threw e (uncaughtException g e)"
    and "\<not> serving (startup cos_S3 env)"
  using assms by (simp_all add: startup_def)

lemma constructor_throws_not_serving:
  assumes "env ''AUTHENTICATION_TYPE'' = Some a"
    and "cos_S3 (CONFIG (constants env a)) = Some e"
  shows "startup cos_S3 env = Load_failed e"
  using assms by (simp add: startup_def load_module_def)

lemma serving_iff_complete:
  assumes g: "load_module cos_S3 env = Inr g"
  shows "serving (startup cos_S3 env) =
           (complete_environment env \<and> 0 \<le> PORT g \<and> PORT g \<le> 65535)"
proof -
  from g obtain a where a: "env ''AUTHENTICATION_TYPE'' = Some a"
    by (auto simp: load_module_def split: option.splits)
  have ga: "AUTHENTICATION_TYPE g = Some a" using load_module_constants(1) [OF g] a by simp
  show ?thesis
  proof (cases "truthy (env ''BUCKET_NAME'') \<and> truthy (env ''ENDPOINT'') \<and> a \<noteq> []")
    case False
    then have "\<exists>e. main env g = Inl e" using a by (auto simp: main_def)
    then have "\<not> serving (startup cos_S3 env)" using g by (auto simp: startup_def)
    moreover have "\<not> complete_environment env"
      using False a by (auto simp: complete_environment_def)
    ultimately show ?thesis by simp
  next
    case True
    then have m: "main env g = (if toLowerCase a = ''hmac'' then
             (if \<not> truthy (env ''REGION'') then Inl (Error missing_REGION)
              else if \<not> truthy (env ''SECRET_ACCESS_KEY'') then Inl (Error missing_SECRET_ACCESS_KEY)
              else if \<not> truthy (env ''ACCESS_KEY_ID'') then Inl (Error missing_ACCESS_KEY_ID)
              else Inr (if env ''PORT'' = None then [port_notice g] else []))
           else if toLowerCase a = ''iam'' then
             (if \<not> truthy (env ''API_KEY'') then Inl (Error missing_API_KEY)
              else if \<not> truthy (env ''SERVICE_INSTANCE_ID'') then Inl (Error missing_SERVICE_INSTANCE_ID)
              else Inr (if env ''PORT'' = None then [port_notice g] else []))
           else Inl (Error (unknown_authentication_type a)))"
      using a ga by (simp add: main_mode)
    show ?thesis using True a g
      by (simp add: startup_def m complete_environment_def listen_def)
  qed
qed

text \<open>
  C1. Startup is to fail with an error naming the missing variable whenever a required
  variable is missing, the mode selector included. With bucket name and endpoint set and
  \<open>AUTHENTICATION_TYPE\<close> not set, evaluating the module constants throws a \<open>TypeError\<close>
  and the process ends there, whatever the client's constructor would do; the check in
  \<open>main\<close> that would throw the error naming \<open>AUTHENTICATION_TYPE\<close> in this environment
  is never reached.
\<close>

theorem startup_mode_selector_absent:
  "startup cos_S3 env_without_mode = Load_failed TypeError \<and>
   main env_without_mode g = Inl (Error missing_AUTHENTICATION_TYPE)"
  by (simp add: startup_def load_module_def main_def env_without_mode_def)

section \<open>GET /video\<close>

text \<open>Evaluation of the header functions at the values used below.\<close>

lemma header_samples [simp]:
  "toLowerCase ''Content-Type'' = ''content-type''"
  "toLowerCase ''Content-Length'' = ''content-length''"
  "toLowerCase ''UTF-8'' = ''utf-8''"
  "decimal (Suc (Suc (Suc 0))) = ''3''"
  "add_charset ''video/mp4'' = ''video/mp4''"
  "add_charset ''text/plain'' = ''text/plain; charset=utf-8''"
  by code_simp+




text \<open>
  C4. When the query has no \<open>id\<close>, the response has status 200 and the body
  \<open>{ "error": "An 'id' term must be provided." }\<close>, and the storage client is not called.
\<close>

theorem video_without_id:
  assumes "query req ''id'' = None"
  shows "statusCode (response (video g cl req)) = 200 \<and>
         payload (response (video g cl req)) =
           Object [(''error'', ''An 'id' term must be provided.'')] \<and>
         calls (video g cl req) = []"
  using assms by (simp add: video_def Let_def res0_def send_def)

text \<open>The theorem at a request with an empty query.\<close>

theorem video_without_id_witness:
  "query (get_request [] []) ''id'' = None \<and>
   statusCode (response (video hmac_globals (failing_store TypeError) (get_request [] []))) = 200 \<and>
   payload (response (video hmac_globals (failing_store TypeError) (get_request [] []))) =
     Object [(''error'', ''An 'id' term must be provided.'')] \<and>
   calls (video hmac_globals (failing_store TypeError) (get_request [] [])) = []"
proof -
  have q: "query (get_request [] []) ''id'' = None"
    by (simp add: get_request_def)
  show ?thesis using q video_without_id [OF q] by simp
qed

text \<open>
  C5. When the fetch fails, the response has status 500 whatever the error. If the error
  code is \<open>NoSuchKey\<close> every log line of the request is at info level; otherwise the line
  announcing the fetch is followed by three lines at error level, of which the last two
  carry the error object and its stack.
\<close>

theorem video_backend_failure:
  assumes "query req ''id'' = Some key"
    and "getObject cl (video_params g key) = Inl err"
  shows "statusCode (response (video g cl req)) = 500 \<and>
         (code err = Some ''NoSuchKey'' \<longrightarrow>
            map level (logs (video g cl req)) = [info, info]) \<and>
         (code err \<noteq> Some ''NoSuchKey'' \<longrightarrow>
            map level (logs (video g cl req)) = [info, error, error, error] \<and>
            map message (drop 2 (logs (video g cl req))) = [ErrorObject err, ErrorStack err])"
  using assms by (simp add: video_def Let_def res0_def sendStatus_def logger_def)

text \<open>The theorem at a missing key and at a throttled call.\<close>

theorem video_backend_failure_witness:
  "query (get_request [] [(''id'', ''gone'')]) ''id'' = Some ''gone'' \<and>
   getObject (failing_store (ServiceError (Some ''NoSuchKey'') ''The specified key does not exist.''))
     (video_params hmac_globals ''gone'') =
     Inl (ServiceError (Some ''NoSuchKey'') ''The specified key does not exist.'') \<and>
   statusCode (response (video hmac_globals
     (failing_store (ServiceError (Some ''NoSuchKey'') ''The specified key does not exist.''))
     (get_request [] [(''id'', ''gone'')]))) = 500 \<and>
   map level (logs (video hmac_globals
     (failing_store (ServiceError (Some ''NoSuchKey'') ''The specified key does not exist.''))
     (get_request [] [(''id'', ''gone'')]))) = [info, info] \<and>
   statusCode (response (video hmac_globals
     (failing_store (ServiceError (Some ''SlowDown'') ''Reduce your request rate.''))
     (get_request [] [(''id'', ''gone'')]))) = 500 \<and>
   map level (logs (video hmac_globals
     (failing_store (ServiceError (Some ''SlowDown'') ''Reduce your request rate.''))
     (get_request [] [(''id'', ''gone'')]))) = [info, error, error, error]"
proof -
  let ?nf = "ServiceError (Some ''NoSuchKey'') ''The specified key does not exist.''"
  let ?sd = "ServiceError (Some ''SlowDown'') ''Reduce your request rate.''"
  have q: "query (get_request [] [(''id'', ''gone'')]) ''id'' = Some ''gone''"
    by (simp add: get_request_def)
  have f: "getObject (failing_store ?nf) (video_params hmac_globals ''gone'') = Inl ?nf"
    by (simp add: failing_store_def)
  have f': "getObject (failing_store ?sd) (video_params hmac_globals ''gone'') = Inl ?sd"
    by (simp add: failing_store_def)
  show ?thesis
    using q f video_backend_failure [OF q f] video_backend_failure [OF q f'] by simp
qed

section \<open>POST /upload\<close>

text \<open>
  C3. For a request with \<open>id\<close>, \<open>content-type\<close> and \<open>content-length\<close> headers, the handler
  makes exactly one storage call, a \<open>putObject\<close> whose bucket is \<open>BUCKET_NAME\<close> and whose
  key, content type, content length and body are those of the request. If the call
  succeeds the status is 200; if it fails the status is 500 and the two log lines after
  the announcement are at error level, the last one carrying the error.
\<close>

theorem upload_store_call:
  assumes "headers req ''id'' = Some k"
    and "headers req ''content-type'' = Some t"
    and "headers req ''content-length'' = Some l"
  shows "calls (upload g cl req) =
           [PutObject \<lparr> Bucket = BUCKET_NAME g, Key = Some k, ContentType = Some t,
                        ContentLength = Some l, Body = Some (body req) \<rparr>] \<and>
         (case putObject cl \<lparr> Bucket = BUCKET_NAME g, Key = Some k, ContentType = Some t,
                               ContentLength = Some l, Body = Some (body req) \<rparr> of
            Inr ok \<Rightarrow> statusCode (response (upload g cl req)) = 200
          | Inl err \<Rightarrow>
              statusCode (response (upload g cl req)) = 500 \<and>
              map level (tl (logs (upload g cl req))) = [error, error] \<and>
              message (last (logs (upload g cl req))) = ErrorObject err)"
  using assms
  by (simp add: upload_def upload_params_def Let_def sendStatus_def res0_def logger_def
      split: sum.splits)

text \<open>The theorem at a three-byte upload, stored and refused.\<close>

theorem upload_store_call_witness:
  "headers (post_request [(''id'', ''foo''), (''content-type'', ''video/mp4''),
      (''content-length'', ''3'')] [1, 2, 3]) ''id'' = Some ''foo'' \<and>
   headers (post_request [(''id'', ''foo''), (''content-type'', ''video/mp4''),
      (''content-length'', ''3'')] [1, 2, 3]) ''content-type'' = Some ''video/mp4'' \<and>
   headers (post_request [(''id'', ''foo''), (''content-type'', ''video/mp4''),
      (''content-length'', ''3'')] [1, 2, 3]) ''content-length'' = Some ''3'' \<and>
   calls (upload hmac_globals (store_with (\<lambda>p. Inl TypeError))
      (post_request [(''id'', ''foo''), (''content-type'', ''video/mp4''),
         (''content-length'', ''3'')] [1, 2, 3])) =
     [PutObject \<lparr> Bucket = Some ''videos'', Key = Some ''foo'', ContentType = Some ''video/mp4'',
                  ContentLength = Some ''3'', Body = Some [1, 2, 3] \<rparr>] \<and>
   statusCode (response (upload hmac_globals (store_with (\<lambda>p. Inl TypeError))
      (post_request [(''id'', ''foo''), (''content-type'', ''video/mp4''),
         (''content-length'', ''3'')] [1, 2, 3]))) = 200 \<and>
   statusCode (response (upload hmac_globals (failing_store (ServiceError None ''socket hang up''))
      (post_request [(''id'', ''foo''), (''content-type'', ''video/mp4''),
         (''content-length'', ''3'')] [1, 2, 3]))) = 500"
proof -
  let ?req = "post_request [(''id'', ''foo''), (''content-type'', ''video/mp4''),
      (''content-length'', ''3'')] [1, 2, 3]"
  have h1: "headers ?req ''id'' = Some ''foo''"
    and h2: "headers ?req ''content-type'' = Some ''video/mp4''"
    and h3: "headers ?req ''content-length'' = Some ''3''"
    by (simp_all add: post_request_def)
  have b: "body ?req = [1, 2, 3]" "BUCKET_NAME hmac_globals = Some ''videos''"
    by (simp_all add: post_request_def hmac_globals_def)
  show ?thesis
    using h1 h2 h3
      upload_store_call [OF h1 h2 h3, of hmac_globals "store_with (\<lambda>p. Inl TypeError)"]
      upload_store_call [OF h1 h2 h3, of hmac_globals
        "failing_store (ServiceError None ''socket hang up'')"]
    by (simp add: b store_with_def failing_store_def)
qed

text \<open>
  C10. The upload handler checks nothing of the request: whatever the headers, it makes
  the one \<open>putObject\<close> call with the header values as they are, \<open>undefined\<close> for a header
  that is missing, and the status is 200 or 500 by the outcome of that call alone.
\<close>

theorem upload_unvalidated:
  "calls (upload g cl req) = [PutObject (upload_params g req)] \<and>
   Key (upload_params g req) = headers req ''id'' \<and>
   ContentType (upload_params g req) = headers req ''content-type'' \<and>
   ContentLength (upload_params g req) = headers req ''content-length'' \<and>
   (headers req ''id'' = None \<longrightarrow> Key (upload_params g req) = None) \<and>
   statusCode (response (upload g cl req)) =
     (case putObject cl (upload_params g req) of Inr ok \<Rightarrow> 200 | Inl err \<Rightarrow> 500)"
  by (simp add: upload_def upload_params_def Let_def sendStatus_def res0_def split: sum.splits)

text \<open>The theorem at a request with no headers at all.\<close>

theorem upload_unvalidated_witness:
  "headers (post_request [] [7]) ''id'' = None \<and>
   calls (upload hmac_globals (store_with (\<lambda>p. Inl TypeError)) (post_request [] [7])) =
     [PutObject \<lparr> Bucket = Some ''videos'', Key = None, ContentType = None,
                  ContentLength = None, Body = Some [7] \<rparr>] \<and>
   statusCode (response (upload hmac_globals (store_with (\<lambda>p. Inl TypeError))
     (post_request [] [7]))) = 200"
proof -
  have h: "headers (post_request [] [7]) ''id'' = None"
    by (simp add: post_request_def)
  have p: "upload_params hmac_globals (post_request [] [7]) =
      \<lparr> Bucket = Some ''videos'', Key = None, ContentType = None,
        ContentLength = None, Body = Some [7] \<rparr>"
    by (simp add: upload_params_def post_request_def hmac_globals_def)
  show ?thesis
    using h upload_unvalidated [of hmac_globals "store_with (\<lambda>p. Inl TypeError)"
        "post_request [] [7]"]
    by (simp add: p store_with_def)
qed

section \<open>The readiness flag\<close>

text \<open>The only event that changes \<open>READINESS_PROBE\<close> is \<open>Listening\<close>, which sets it.\<close>

lemma READINESS_PROBE_step:
  "READINESS_PROBE (vars (step p e)) = (e = Listening \<or> READINESS_PROBE (vars p))"
  by (cases e) simp_all

lemma READINESS_PROBE_run:
  "READINESS_PROBE (vars (run p evs)) = (Listening \<in> set evs \<or> READINESS_PROBE (vars p))"
  unfolding run_def
  by (induction evs arbitrary: p) (auto simp: READINESS_PROBE_step)

text \<open>
  C6. From the loaded module on, \<open>READINESS_PROBE\<close> is false as long as the listener's
  callback has not fired and true from then on, whatever else happens: no later event
  makes it false again. A readiness request is answered 500 before that event and 200
  after it.
\<close>

theorem readiness_lifetime:
  assumes "load_module cos_S3 env = Inr g"
  shows "READINESS_PROBE (vars (run (loaded g) evs)) = (Listening \<in> set evs) \<and>
         statusCode (response (handle (vars (run (loaded g) evs)) cl GET_readiness req)) =
           (if Listening \<in> set evs then 200 else 500) \<and>
         (READINESS_PROBE (vars (run (loaded g) evs)) \<longrightarrow>
            READINESS_PROBE (vars (run (loaded g) (evs @ later))))"
  using load_module_constants(3) [OF assms]
  by (simp add: READINESS_PROBE_run loaded_def readiness_def sendStatus_def res0_def)

text \<open>The theorem before the listener is bound, and after it with two more requests.\<close>

theorem readiness_lifetime_witness:
  "load_module constructed hmac_env = Inr hmac_globals \<and>
   statusCode (response (handle (vars (run (loaded hmac_globals) []))
     (failing_store TypeError) GET_readiness (get_request [] []))) = 500 \<and>
   statusCode (response (handle (vars (run (loaded hmac_globals)
       [Incoming GET_readiness (failing_store TypeError) (get_request [] []), Listening,
        Incoming GET_video (failing_store TypeError) (get_request [] [])]))
     (failing_store TypeError) GET_readiness (get_request [] []))) = 200 \<and>
   READINESS_PROBE (vars (run (loaded hmac_globals)
       ([Incoming GET_readiness (failing_store TypeError) (get_request [] []), Listening,
         Incoming GET_video (failing_store TypeError) (get_request [] [])]
        @ [Incoming unmatched (failing_store TypeError) (get_request [] [])])))"
  using load_module_hmac_env
    readiness_lifetime [OF load_module_hmac_env, of "[]" "failing_store TypeError"
      "get_request [] []" "[]"]
    readiness_lifetime [OF load_module_hmac_env,
      of "[Incoming GET_readiness (failing_store TypeError) (get_request [] []), Listening,
           Incoming GET_video (failing_store TypeError) (get_request [] [])]"
         "failing_store TypeError" "get_request [] []"
         "[Incoming unmatched (failing_store TypeError) (get_request [] [])]"]
  by simp

section \<open>The listen port\<close>

text \<open>
  C8 as stated fails. With \<open>PORT=abc\<close>, which does not parse, the server is asked to
  listen on 3000 but \<open>main\<close> logs nothing: the notice is tied to \<open>PORT\<close> being unset.
  With \<open>PORT=0\<close>, which parses to 0, the port is 3000 and not the parsed value.
\<close>

theorem PORT_default_counterexample:
  "parseInt ''abc'' = None \<and>
   startup constructed (hmac_env(''PORT'' \<mapsto> ''abc'')) = Listen_called hmac_globals [] \<and>
   PORT hmac_globals = 3000 \<and>
   parseInt ''0'' = Some 0 \<and>
   PORT_of (hmac_env(''PORT'' \<mapsto> ''0'')) = 3000"
proof -
  have l: "load_module constructed (hmac_env(''PORT'' \<mapsto> ''abc'')) = Inr hmac_globals"
    by (simp add: load_module_def constants_def constructed_def hmac_env_def hmac_globals_def
        PORT_of_def parseInt_samples)
  have m: "main (hmac_env(''PORT'' \<mapsto> ''abc'')) hmac_globals = Inr []"
    by (simp add: main_def hmac_env_def hmac_globals_def)
  show ?thesis
    by (simp add: startup_def l m parseInt_samples PORT_of_def listen_def)
       (simp add: hmac_globals_def)
qed

text \<open>
  C8, amended. When startup passes validation, the port is 3000 if \<open>PORT\<close> is unset, does
  not parse, or parses to 0, and the parsed value otherwise; the notice, at info level, is
  the only thing \<open>main\<close> logs and it is logged exactly when \<open>PORT\<close> is unset.
\<close>

theorem PORT_resolution:
  assumes "load_module cos_S3 env = Inr g" and "main env g = Inr ls"
  shows "PORT g = (case env ''PORT'' of
                     None \<Rightarrow> 3000
                   | Some p \<Rightarrow> (case parseInt p of
                                  None \<Rightarrow> 3000
                                | Some n \<Rightarrow> if n = 0 then 3000 else n)) \<and>
         ls = (if env ''PORT'' = None then [port_notice g] else []) \<and>
         level (port_notice g) = info"
proof -
  have "PORT g = PORT_of env" using assms(1) by (rule load_module_constants(2))
  moreover have "ls = (if env ''PORT'' = None then [port_notice g] else [])"
    using assms(2) by (auto simp: main_def split: if_splits option.splits)
  ultimately show ?thesis
    by (auto simp: PORT_of_def parseInt_Nil port_notice_def logger_def split: option.splits)
qed

text \<open>The theorem with \<open>PORT\<close> unset and with \<open>PORT=8080\<close>.\<close>

theorem PORT_resolution_witness:
  "load_module constructed hmac_env = Inr hmac_globals \<and>
   main hmac_env hmac_globals = Inr [port_notice hmac_globals] \<and>
   PORT hmac_globals = 3000 \<and>
   load_module constructed (hmac_env(''PORT'' \<mapsto> ''8080'')) =
     Inr (hmac_globals\<lparr> PORT := 8080 \<rparr>) \<and>
   main (hmac_env(''PORT'' \<mapsto> ''8080'')) (hmac_globals\<lparr> PORT := 8080 \<rparr>) = Inr [] \<and>
   PORT (hmac_globals\<lparr> PORT := 8080 \<rparr>) = 8080"
proof -
  have m: "main hmac_env hmac_globals = Inr [port_notice hmac_globals]"
    by (simp add: main_def hmac_env_def hmac_globals_def)
  have l': "load_module constructed (hmac_env(''PORT'' \<mapsto> ''8080'')) =
      Inr (hmac_globals\<lparr> PORT := 8080 \<rparr>)"
    by (simp add: load_module_def constants_def constructed_def hmac_env_def hmac_globals_def
        PORT_of_def parseInt_samples)
  have m': "main (hmac_env(''PORT'' \<mapsto> ''8080'')) (hmac_globals\<lparr> PORT := 8080 \<rparr>) = Inr []"
    by (simp add: main_def hmac_env_def hmac_globals_def)
  show ?thesis
    using load_module_hmac_env m l' m'
      PORT_resolution [OF load_module_hmac_env m] PORT_resolution [OF l' m']
    by (simp add: hmac_globals_def)
qed

section \<open>Correlation identifiers\<close>

text \<open>
  The handlers of \<open>/video\<close> and \<open>/upload\<close> read the header \<open>x-correlation-id\<close> and give
  its value, undefined when the header is absent, to every log call they make.
\<close>

lemma video_upload_logs_carry_correlation_id:
  assumes "r = GET_video \<or> r = POST_upload"
    and "e \<in> set (logs (handle g cl r req))"
  shows "requestId e = headers req ''x-correlation-id''"
  using assms
  by (auto simp: video_def upload_def Let_def logger_def
        split: option.splits sum.splits if_splits)

text \<open>
  C9. Every log line of a request that carries \<open>x-correlation-id\<close> is to carry that
  identifier, on every route. A request with \<open>x-correlation-id: abc\<close> that matches no
  route is logged by the last middleware with the request identifier \<open>-1\<close>; the same
  request handled by the \<open>/video\<close> handler is logged with \<open>abc\<close>.
\<close>

theorem fallback_drops_correlation_id:
  "headers (get_request [(''x-correlation-id'', ''abc'')] []) ''x-correlation-id'' = Some ''abc'' \<and>
   map requestId (logs (handle hmac_globals (failing_store TypeError) unmatched
     (get_request [(''x-correlation-id'', ''abc'')] []))) = [Some ''-1''] \<and>
   map requestId (logs (handle hmac_globals (failing_store TypeError) GET_video
     (get_request [(''x-correlation-id'', ''abc'')] []))) = [Some ''abc'']"
  by (simp add: get_request_def not_found_def video_def logger_def)

end
